theory Spec2Isabelle
  imports Complex_Main
begin

section \<open>The customer data pipeline of \<^verbatim>\<open>etl.py\<close>\<close>

text \<open>
  The pipeline reads a table of purchase records, upserts every record into a staging
  table of a PostgreSQL database, rewrites three yes/no columns, derives the tables
  customers, purchases and products once, and fills missing review ratings with the
  average rating.

  The embedding keeps the Python functions and gives the SQL statements they send their
  meaning on an explicit database state. What lies outside the repository is treated as
  follows.
  \<^item> Every function of the source takes the \<^verbatim>\<open>engine\<close>. Here the engine holds what
    the source leaves to the driver and to the server: the conversion of a Python value
    to a value of a column, and the average of double precision numbers with the
    rounding and the overflow error of the server. Both are parameters: every theorem
    holds for each engine.
  \<^item> A double precision number is a finite number (a rational, its exact value), NaN, or
    an infinity; no arithmetic on them is done in the model itself.
  \<^item> Apart from the overflow of the average, a statement fails only for a reason the
    database state gives (a missing or an already existing relation, a null key, a
    value of the wrong type); each executed statement is committed on its own.
\<close>

subsection \<open>Values, rows and tables\<close>

datatype float8 = Finite rat | NaN | PlusInfinity | MinusInfinity

datatype sql_value = Null | IntV int | FloatV float8 | StrV string

datatype col_type = Integer | Float | String

datatype py_value = PyNone | PyInt int | PyFloat float8 | PyStr string

datatype error = CompileError | IntegrityError | ProgrammingError | DataError

text \<open>
  The engine: \<open>bind_param\<close> gives the value a column of a type receives for a Python
  value, or the error of the conversion; \<open>float8_avg\<close> gives the \<^verbatim>\<open>AVG\<close> of a list of
  double precision numbers, in the order they are read, or the error the server raises
  (overflow).
\<close>

record engine =
  bind_param :: "col_type \<Rightarrow> py_value \<Rightarrow> error + sql_value"
  float8_avg :: "float8 list \<Rightarrow> error + float8"

text \<open>A row gives every column name its value; a column the row does not have is \<open>Null\<close>.\<close>

type_synonym row = "string \<Rightarrow> sql_value"

type_synonym table = "row list"

text \<open>A pandas DataFrame: the column labels and the rows of cells under them.\<close>

record dataframe =
  columns :: "string list"
  cells :: "py_value list list"

text \<open>
  The statements the pipeline sends to the database. An upsert carries, for each column,
  the value the insert supplies, or \<open>None\<close> when the insert does not name the column.
\<close>

datatype stmt =
    Upsert "string \<Rightarrow> sql_value option"
  | ConvertYesNo
  | CreateIndex
  | CreateCustomers
  | CreateProducts
  | CreatePurchases
  | UpdateMissingReviewRatings

text \<open>
  The state: the four tables (\<open>None\<close> when the table does not exist), whether the index
  \<^verbatim>\<open>idx_customer_id\<close> exists, the errors written to the log, the statements handed to
  \<^verbatim>\<open>conn.execute\<close> so far, in order, and the next value of the sequence behind the
  staging \<^verbatim>\<open>customer_id\<close> (an \<open>Integer\<close> primary key is a serial column).
\<close>

record world =
  staging :: "table option"
  customers :: "table option"
  products :: "table option"
  purchases :: "table option"
  idx_customer_id :: bool
  logged :: "error list"
  sent :: "stmt list"
  staging_seq :: int

subsection \<open>The staging schema\<close>

text \<open>\<^verbatim>\<open>TABLE_SCHEMA\<close>: column name, type, and whether it is a primary key.\<close>

definition table_schema :: "(string \<times> col_type \<times> bool) list" where
  "table_schema =
    [(''customer_id'', Integer, True),
     (''category'', String, False),
     (''age'', Integer, False),
     (''gender'', String, False),
     (''location'', String, False),
     (''color'', String, False),
     (''size'', String, False),
     (''season'', String, False),
     (''item_purchased'', String, False),
     (''purchase_amount'', Float, False),
     (''review_rating'', Float, False),
     (''subscription_status'', String, False),
     (''payment_method'', String, False),
     (''shipping_type'', String, False),
     (''discount_applied'', String, False),
     (''promo_code_used'', String, False),
     (''previous_purchase'', String, False),
     (''preferred_payment_method'', String, False),
     (''frequency_of_purchase'', String, False)]"

definition primary_keys :: "string list" where
  "primary_keys = [''customer_id'']"

definition column_names :: "string list" where
  "column_names = map fst table_schema"

definition column_type :: "string \<Rightarrow> col_type option" where
  "column_type c = map_option fst (map_of table_schema c)"

text \<open>The columns \<^verbatim>\<open>c\<close> of the schema with \<^verbatim>\<open>not c.primary_key\<close>.\<close>

definition non_pk_columns :: "string list" where
  "non_pk_columns = map fst (filter (\<lambda>(c, ty, pk). \<not> pk) table_schema)"

subsection \<open>The loader\<close>

definition column_mapping :: "(string \<times> string) list" where
  "column_mapping =
    [(''Customer ID'', ''customer_id''),
     (''Payment Method'', ''payment_method''),
     (''Item Purchased'', ''item_purchased''),
     (''Size'', ''size''),
     (''Preferred Payment Method'', ''preferred_payment_method''),
     (''Discount Applied'', ''discount_applied''),
     (''Color'', ''color''),
     (''Purchase Amount (USD)'', ''purchase_amount''),
     (''Gender'', ''gender''),
     (''Season'', ''season''),
     (''Shipping Type'', ''shipping_type''),
     (''Review Rating'', ''review_rating''),
     (''Age'', ''age''),
     (''Frequency of Purchases'', ''frequency_of_purchase''),
     (''Promo Code Used'', ''promo_code_used''),
     (''Subscription Status'', ''subscription_status''),
     (''Category'', ''category''),
     (''Location'', ''location''),
     (''Previous Purchases'', ''previous_purchase'')]"

text \<open>\<^verbatim>\<open>df.rename(columns=column_mapping)\<close>: a label that is not in the mapping stays.\<close>

definition rename :: "dataframe \<Rightarrow> dataframe" where
  "rename df =
     df\<lparr>columns := map (\<lambda>c. case map_of column_mapping c of Some c' \<Rightarrow> c' | None \<Rightarrow> c)
                       (columns df)\<rparr>"

text \<open>
  \<^verbatim>\<open>df.to_dict(orient='records')\<close>: one dictionary per row of cells. A dictionary is
  the list of its items; where a label occurs twice the later item counts.
\<close>

type_synonym pyrecord = "(string \<times> py_value) list"

definition to_dict :: "dataframe \<Rightarrow> pyrecord list" where
  "to_dict df = map (\<lambda>r. zip (columns df) r) (cells df)"

definition record_get :: "pyrecord \<Rightarrow> string \<Rightarrow> py_value option" where
  "record_get r c = map_of (rev r) c"

text \<open>
  \<^verbatim>\<open>insert(table_schema).values(**record)\<close>: a key of the record that names no column
  of the table is an error; the insert names the columns the record has a key for, each
  with the bound value of the record, and no other column.
\<close>

definition bind_column ::
  "engine \<Rightarrow> pyrecord \<Rightarrow> string \<times> col_type \<times> bool \<Rightarrow> error + sql_value option" where
  "bind_column eng r col =
     (case record_get r (fst col) of
        None \<Rightarrow> Inr None
      | Some v \<Rightarrow>
          (case bind_param eng (fst (snd col)) v of
             Inl e \<Rightarrow> Inl e
           | Inr x \<Rightarrow> Inr (Some x)))"

fun first_error :: "(error + 'a) list \<Rightarrow> error option" where
  "first_error [] = None"
| "first_error (Inl e # xs) = Some e"
| "first_error (Inr v # xs) = first_error xs"

definition insert_values ::
  "engine \<Rightarrow> pyrecord \<Rightarrow> error + (string \<Rightarrow> sql_value option)" where
  "insert_values eng r =
     (if \<exists>k \<in> set (map fst r). k \<notin> set column_names then Inl CompileError
      else
        (case first_error (map (bind_column eng r) table_schema) of
           Some e \<Rightarrow> Inl e
         | None \<Rightarrow>
             Inr (\<lambda>c. case map_of table_schema c of
                         None \<Rightarrow> None
                       | Some col \<Rightarrow>
                           (case bind_column eng r (c, col) of
                              Inl e \<Rightarrow> None
                            | Inr v \<Rightarrow> v))))"

text \<open>
  The row the database inserts for the values of an insert: the value supplied for a
  column, and the default of the column where none is supplied. The default of the
  serial primary key is the next value of its sequence; the other columns have no
  default and are \<open>Null\<close>.
\<close>

definition inserted_row :: "int \<Rightarrow> (string \<Rightarrow> sql_value option) \<Rightarrow> row" where
  "inserted_row seq vals =
     (\<lambda>c. case vals c of
            Some v \<Rightarrow> v
          | None \<Rightarrow> if c \<in> set primary_keys then IntV seq else Null)"

text \<open>
  \<^verbatim>\<open>on_conflict_do_update(index_elements=primary_keys, set_={every column that is not
  a primary key: its excluded value})\<close>.
\<close>

definition conflicts :: "row \<Rightarrow> row \<Rightarrow> bool" where
  "conflicts old new = (\<forall>k \<in> set primary_keys. old k = new k)"

definition excluded_update :: "row \<Rightarrow> row \<Rightarrow> row" where
  "excluded_update old new = (\<lambda>c. if c \<in> set non_pk_columns then new c else old c)"

definition on_conflict_do_update :: "table \<Rightarrow> row \<Rightarrow> table" where
  "on_conflict_do_update tbl new =
     (if \<exists>old \<in> set tbl. conflicts old new
      then map (\<lambda>old. if conflicts old new then excluded_update old new else old) tbl
      else tbl @ [new])"

subsection \<open>The statements of the transformation\<close>

text \<open>
  \<^verbatim>\<open>CASE WHEN c = 'Yes' THEN TRUE ELSE FALSE END\<close> is a boolean. The three columns it
  is assigned to are declared \<open>String\<close>; PostgreSQL stores a boolean in a text column
  as the text \<^verbatim>\<open>true\<close> or \<^verbatim>\<open>false\<close>, and refuses it for a numeric column.
\<close>

definition yes_no_columns :: "string list" where
  "yes_no_columns = [''subscription_status'', ''discount_applied'', ''promo_code_used'']"

definition case_when_yes :: "sql_value \<Rightarrow> bool" where
  "case_when_yes v = (if v = StrV ''Yes'' then True else False)"

definition store_boolean :: "col_type \<Rightarrow> bool \<Rightarrow> error + sql_value" where
  "store_boolean ty b =
     (case ty of
        String \<Rightarrow> Inr (StrV (if b then ''true'' else ''false''))
      | Integer \<Rightarrow> Inl ProgrammingError
      | Float \<Rightarrow> Inl ProgrammingError)"

definition convert_row :: "row \<Rightarrow> row" where
  "convert_row r =
     (\<lambda>c. if c \<in> set yes_no_columns
          then (case store_boolean String (case_when_yes (r c)) of
                  Inr v \<Rightarrow> v
                | Inl e \<Rightarrow> r c)
          else r c)"

text \<open>\<^verbatim>\<open>SELECT\<close> and \<^verbatim>\<open>SELECT DISTINCT\<close> of a list of columns.\<close>

definition row_of :: "string list \<Rightarrow> sql_value list \<Rightarrow> row" where
  "row_of cols vals = (\<lambda>c. case map_of (zip cols vals) c of Some v \<Rightarrow> v | None \<Rightarrow> Null)"

definition select :: "string list \<Rightarrow> table \<Rightarrow> table" where
  "select cols tbl = map (row_of cols) (map (\<lambda>r. map r cols) tbl)"

definition select_distinct :: "string list \<Rightarrow> table \<Rightarrow> table" where
  "select_distinct cols tbl = map (row_of cols) (remdups (map (\<lambda>r. map r cols) tbl))"

text \<open>
  \<^verbatim>\<open>AVG(review_rating) ... WHERE review_rating IS NOT NULL\<close>: \<open>Null\<close> when no rating
  is left, and else the average of the ratings as the server computes it, which may be
  the overflow error. The column is a \<open>Float\<close> column; the statement fails when a rating
  is neither null nor a double precision number.
\<close>

fun the_float :: "sql_value \<Rightarrow> float8 option" where
  "the_float (FloatV x) = Some x"
| "the_float v = None"

definition ratings :: "table \<Rightarrow> sql_value list" where
  "ratings tbl = filter (\<lambda>v. v \<noteq> Null) (map (\<lambda>r. r ''review_rating'') tbl)"

definition avg_rating :: "engine \<Rightarrow> table \<Rightarrow> error + sql_value" where
  "avg_rating eng tbl =
     (if ratings tbl = [] then Inr Null
      else
        (case float8_avg eng (List.map_filter the_float (ratings tbl)) of
           Inl e \<Rightarrow> Inl e
         | Inr a \<Rightarrow> Inr (FloatV a)))"

definition fill_rating :: "sql_value \<Rightarrow> row \<Rightarrow> row" where
  "fill_rating a r = (if r ''review_rating'' = Null then r(''review_rating'' := a) else r)"

subsection \<open>The database\<close>

text \<open>
  What the database does with a statement: the new state, or the error it raises. A
  statement that fails changes nothing.
\<close>

fun pg_execute :: "engine \<Rightarrow> stmt \<Rightarrow> world \<Rightarrow> error + world" where
  "pg_execute eng (Upsert vals) st =
     (case staging st of
        None \<Rightarrow> Inl ProgrammingError
      | Some tbl \<Rightarrow>
          if \<exists>k \<in> set primary_keys. inserted_row (staging_seq st) vals k = Null
          then Inl IntegrityError
          else Inr (st\<lparr>staging :=
                         Some (on_conflict_do_update tbl (inserted_row (staging_seq st) vals)),
                       staging_seq :=
                         (if \<exists>k \<in> set primary_keys. vals k = None then staging_seq st + 1
                          else staging_seq st)\<rparr>))"
| "pg_execute eng ConvertYesNo st =
     (case staging st of
        None \<Rightarrow> Inl ProgrammingError
      | Some tbl \<Rightarrow>
          if \<forall>c \<in> set yes_no_columns. column_type c = Some String
          then Inr (st\<lparr>staging := Some (map convert_row tbl)\<rparr>)
          else Inl ProgrammingError)"
| "pg_execute eng CreateIndex st =
     (case staging st of
        None \<Rightarrow> Inl ProgrammingError
      | Some tbl \<Rightarrow>
          if idx_customer_id st then Inl ProgrammingError
          else Inr (st\<lparr>idx_customer_id := True\<rparr>))"
| "pg_execute eng CreateCustomers st =
     (case staging st of
        None \<Rightarrow> Inl ProgrammingError
      | Some tbl \<Rightarrow>
          if customers st \<noteq> None then Inl ProgrammingError
          else Inr (st\<lparr>customers := Some (select_distinct
                 [''customer_id'', ''age'', ''gender'', ''subscription_status''] tbl)\<rparr>))"
| "pg_execute eng CreateProducts st =
     (case staging st of
        None \<Rightarrow> Inl ProgrammingError
      | Some tbl \<Rightarrow>
          if products st \<noteq> None then Inl ProgrammingError
          else Inr (st\<lparr>products := Some (select_distinct
                 [''item_purchased'', ''category'', ''size'', ''color'', ''season''] tbl)\<rparr>))"
| "pg_execute eng CreatePurchases st =
     (case staging st of
        None \<Rightarrow> Inl ProgrammingError
      | Some tbl \<Rightarrow>
          if purchases st \<noteq> None then Inl ProgrammingError
          else Inr (st\<lparr>purchases := Some (select
                 [''customer_id'', ''item_purchased'', ''purchase_amount'', ''location'',
                  ''review_rating''] tbl)\<rparr>))"
| "pg_execute eng UpdateMissingReviewRatings st =
     (case purchases st of
        None \<Rightarrow> Inl ProgrammingError
      | Some tbl \<Rightarrow>
          if \<exists>v \<in> set (ratings tbl). the_float v = None then Inl ProgrammingError
          else
            (case avg_rating eng tbl of
               Inl e \<Rightarrow> Inl e
             | Inr a \<Rightarrow> Inr (st\<lparr>purchases := Some (map (fill_rating a) tbl)\<rparr>)))"

subsection \<open>The Python functions\<close>

text \<open>
  A Python call ends in a state, either normally (\<open>None\<close>) or by raising an exception
  (\<open>Some e\<close>). \<open>then_call\<close> is the sequence of two calls: the second is not reached
  when the first raises. \<open>try_except\<close> is the handler shared by
  \<^verbatim>\<open>load_to_staging\<close> and \<^verbatim>\<open>execute_sql\<close>: the exception is written to the log
  and the function returns.
\<close>

type_synonym call = "world \<Rightarrow> error option \<times> world"

definition then_call :: "call \<Rightarrow> call \<Rightarrow> call" where
  "then_call f g st =
     (case f st of
        (None, st') \<Rightarrow> g st'
      | (Some e, st') \<Rightarrow> (Some e, st'))"

definition try_except :: "call \<Rightarrow> call" where
  "try_except f st =
     (case f st of
        (None, st') \<Rightarrow> (None, st')
      | (Some e, st') \<Rightarrow> (None, st'\<lparr>logged := logged st' @ [e]\<rparr>))"

definition conn_execute :: "engine \<Rightarrow> stmt \<Rightarrow> call" where
  "conn_execute eng s st =
     (case pg_execute eng s (st\<lparr>sent := sent st @ [s]\<rparr>) of
        Inl e \<Rightarrow> (Some e, st\<lparr>sent := sent st @ [s]\<rparr>)
      | Inr st' \<Rightarrow> (None, st'))"

text \<open>The loop of \<^verbatim>\<open>load_to_staging\<close> over \<^verbatim>\<open>list_to_write\<close>.\<close>

fun for_records :: "engine \<Rightarrow> pyrecord list \<Rightarrow> call" where
  "for_records eng [] st = (None, st)"
| "for_records eng (r # rs) st =
     (case insert_values eng r of
        Inl e \<Rightarrow> (Some e, st)
      | Inr vals \<Rightarrow>
          (case conn_execute eng (Upsert vals) st of
             (Some e, st') \<Rightarrow> (Some e, st')
           | (None, st') \<Rightarrow> for_records eng rs st'))"

definition load_to_staging :: "engine \<Rightarrow> dataframe \<Rightarrow> call" where
  "load_to_staging eng df = try_except (for_records eng (to_dict (rename df)))"

definition execute_sql :: "engine \<Rightarrow> stmt \<Rightarrow> call" where
  "execute_sql eng sql = try_except (conn_execute eng sql)"

text \<open>
  \<^verbatim>\<open>metadata.create_all\<close> creates the staging table when it does not exist, and with
  it the sequence of its key, which starts at 1.
\<close>

definition staging_database_schema :: "engine \<Rightarrow> call" where
  "staging_database_schema eng st =
     (None, case staging st of
              None \<Rightarrow> st\<lparr>staging := Some [], staging_seq := 1\<rparr>
            | Some tbl \<Rightarrow> st)"

definition convert_yes_no_to_boolean :: "engine \<Rightarrow> call" where
  "convert_yes_no_to_boolean eng = execute_sql eng ConvertYesNo"

definition create_index :: "engine \<Rightarrow> call" where
  "create_index eng = execute_sql eng CreateIndex"

definition create_customers_table :: "engine \<Rightarrow> call" where
  "create_customers_table eng = execute_sql eng CreateCustomers"

definition create_products_table :: "engine \<Rightarrow> call" where
  "create_products_table eng = execute_sql eng CreateProducts"

definition create_purchases_table :: "engine \<Rightarrow> call" where
  "create_purchases_table eng = execute_sql eng CreatePurchases"

definition update_missing_review_ratings :: "engine \<Rightarrow> call" where
  "update_missing_review_ratings eng = execute_sql eng UpdateMissingReviewRatings"

text \<open>The block of \<^verbatim>\<open>transform_and_load\<close> under \<^verbatim>\<open>if not inspect(engine).has_table("customers")\<close>.\<close>

definition normalize :: "engine \<Rightarrow> call" where
  "normalize eng st =
     (if customers st = None
      then then_call (create_index eng)
             (then_call (create_customers_table eng)
                (then_call (create_purchases_table eng) (create_products_table eng))) st
      else (None, st))"

definition transform_and_load :: "engine \<Rightarrow> call" where
  "transform_and_load eng =
     then_call (convert_yes_no_to_boolean eng)
       (then_call (normalize eng) (update_missing_review_ratings eng))"

text \<open>\<^verbatim>\<open>etl\<close>, from the frame that \<^verbatim>\<open>extract\<close> has read.\<close>

definition etl :: "engine \<Rightarrow> dataframe \<Rightarrow> call" where
  "etl eng df =
     then_call (staging_database_schema eng)
       (then_call (load_to_staging eng df) (transform_and_load eng))"

subsection \<open>Notions used in the statements\<close>

text \<open>A record that has a key for every primary key column, as the records of a frame with
  the \<^verbatim>\<open>Customer ID\<close> column have.\<close>

definition supplies_key :: "pyrecord \<Rightarrow> bool" where
  "supplies_key r = (\<forall>k \<in> set primary_keys. k \<in> set (map fst r))"

text \<open>
  The write of a record fails, in a database that has the staging table, when the
  insert cannot be built or bound, or when it supplies null for a primary key.
\<close>

definition rejected :: "engine \<Rightarrow> pyrecord \<Rightarrow> bool" where
  "rejected eng r =
     (case insert_values eng r of
        Inl e \<Rightarrow> True
      | Inr vals \<Rightarrow> \<exists>k \<in> set primary_keys. vals k = Some Null)"

text \<open>
  The rows the loop writes when the sequence of the key stands at \<open>seq\<close>: one row for
  each record before the first rejected one, and none from there on. A record without
  the key takes the value of the sequence and advances it.
\<close>

fun written_rows :: "engine \<Rightarrow> int \<Rightarrow> pyrecord list \<Rightarrow> row list" where
  "written_rows eng seq [] = []"
| "written_rows eng seq (r # rs) =
     (if rejected eng r then []
      else inserted_row seq (projr (insert_values eng r))
             # written_rows eng (if supplies_key r then seq else seq + 1) rs)"

text \<open>
  What a list of upserts does to one row of a table that already has the keys of all
  of them: every upsert with the key of the row overwrites it, in turn.
\<close>

definition overwrite :: "row \<Rightarrow> row \<Rightarrow> row" where
  "overwrite old new = (if conflicts old new then excluded_update old new else old)"

definition overwrites :: "row list \<Rightarrow> row \<Rightarrow> row" where
  "overwrites news old = foldl overwrite old news"

text \<open>
  An engine for the examples. It stores a Python value of the type of the column as it
  is and \<^verbatim>\<open>None\<close> as \<open>Null\<close>, and refuses every other pair; its average of finite
  numbers is their exact mean, which is what the server returns on the examples below
  (their sums and means are doubles).
\<close>

fun bind_typed :: "col_type \<Rightarrow> py_value \<Rightarrow> error + sql_value" where
  "bind_typed ty PyNone = Inr Null"
| "bind_typed Integer (PyInt i) = Inr (IntV i)"
| "bind_typed Float (PyFloat x) = Inr (FloatV x)"
| "bind_typed String (PyStr s) = Inr (StrV s)"
| "bind_typed ty v = Inl DataError"

fun finite_value :: "float8 \<Rightarrow> rat option" where
  "finite_value (Finite x) = Some x"
| "finite_value v = None"

definition avg_exact :: "float8 list \<Rightarrow> error + float8" where
  "avg_exact xs =
     (case those (map finite_value xs) of
        Some ys \<Rightarrow> Inr (Finite (sum_list ys / of_nat (length ys)))
      | None \<Rightarrow> Inr NaN)"

definition example_engine :: engine where
  "example_engine = \<lparr>bind_param = bind_typed, float8_avg = avg_exact\<rparr>"

section \<open>Properties\<close>

subsection \<open>Executing a statement through \<^verbatim>\<open>execute_sql\<close>\<close>

lemma execute_sql_eq:
  "execute_sql eng s st =
     (None, case pg_execute eng s (st\<lparr>sent := sent st @ [s]\<rparr>) of
              Inl e \<Rightarrow> st\<lparr>sent := sent st @ [s], logged := logged st @ [e]\<rparr>
            | Inr st' \<Rightarrow> st')"
  by (simp add: execute_sql_def try_except_def conn_execute_def split: sum.splits)

subsection \<open>The type normalizer\<close>

lemma yes_no_types: "\<forall>c \<in> set yes_no_columns. column_type c = Some String"
  by code_simp

lemma convert_staging:
  "staging (snd (convert_yes_no_to_boolean eng st)) = map_option (map convert_row) (staging st)"
  using yes_no_types
  by (simp add: convert_yes_no_to_boolean_def execute_sql_eq split: option.splits)

lemma convert_row_value:
  "c \<in> set yes_no_columns \<Longrightarrow>
     convert_row r c = StrV (if r c = StrV ''Yes'' then ''true'' else ''false'')"
  by (simp add: convert_row_def store_boolean_def case_when_yes_def)

text \<open>
  Claim C4. After \<^verbatim>\<open>convert_yes_no_to_boolean\<close>, in every row of the staging table
  each of \<^verbatim>\<open>subscription_status\<close>, \<^verbatim>\<open>discount_applied\<close> and \<^verbatim>\<open>promo_code_used\<close>
  holds true exactly when it held the text \<^verbatim>\<open>Yes\<close> before, and false for every other
  value before, \<^verbatim>\<open>No\<close> and null among them. The columns are text columns, so true and
  false are stored as the texts \<^verbatim>\<open>true\<close> and \<^verbatim>\<open>false\<close>.
\<close>

theorem boolean_coercion:
  assumes "staging st = Some tbl"
  shows "fst (convert_yes_no_to_boolean eng st) = None \<and>
    (\<exists>tbl'. staging (snd (convert_yes_no_to_boolean eng st)) = Some tbl' \<and>
       length tbl' = length tbl \<and>
       (\<forall>i < length tbl.
          \<forall>c \<in> {''subscription_status'', ''discount_applied'', ''promo_code_used''}.
            ((tbl' ! i) c = StrV ''true'' \<longleftrightarrow> (tbl ! i) c = StrV ''Yes'') \<and>
            ((tbl ! i) c \<noteq> StrV ''Yes'' \<longrightarrow> (tbl' ! i) c = StrV ''false'')))"
proof -
  have cols: "{''subscription_status'', ''discount_applied'', ''promo_code_used''}
                = set yes_no_columns"
    by (simp add: yes_no_columns_def)
  have "fst (convert_yes_no_to_boolean eng st) = None"
    by (simp add: convert_yes_no_to_boolean_def execute_sql_eq)
  moreover have "staging (snd (convert_yes_no_to_boolean eng st)) = Some (map convert_row tbl)"
    using assms by (simp add: convert_staging)
  moreover have "\<forall>i < length tbl. \<forall>c \<in> set yes_no_columns.
            ((map convert_row tbl ! i) c = StrV ''true'' \<longleftrightarrow> (tbl ! i) c = StrV ''Yes'') \<and>
            ((tbl ! i) c \<noteq> StrV ''Yes'' \<longrightarrow> (map convert_row tbl ! i) c = StrV ''false'')"
    by (simp add: convert_row_value)
  ultimately show ?thesis
    unfolding cols by simp
qed

theorem boolean_coercion_witness:
  "(the (staging (snd (convert_yes_no_to_boolean example_engine
      \<lparr>staging = Some [row_of [''customer_id'', ''subscription_status'', ''discount_applied'']
                                [IntV 7, StrV ''Yes'', StrV ''No'']],
       customers = None, products = None, purchases = None, idx_customer_id = False,
       logged = [], sent = [], staging_seq = 1\<rparr>))) ! 0) ''subscription_status'' = StrV ''true''"
  using boolean_coercion [of
      "\<lparr>staging = Some [row_of [''customer_id'', ''subscription_status'', ''discount_applied'']
                                [IntV 7, StrV ''Yes'', StrV ''No'']],
       customers = None, products = None, purchases = None, idx_customer_id = False,
       logged = [], sent = [], staging_seq = 1\<rparr>"
      "[row_of [''customer_id'', ''subscription_status'', ''discount_applied'']
                                [IntV 7, StrV ''Yes'', StrV ''No'']]"
      example_engine]
  by (auto simp: row_of_def)


subsection \<open>Quality repair\<close>

lemma update_missing_eq:
  "purchases st = Some tbl \<Longrightarrow> \<forall>v \<in> set (ratings tbl). the_float v \<noteq> None \<Longrightarrow>
   avg_rating eng tbl = Inr a \<Longrightarrow>
   update_missing_review_ratings eng st =
     (None, st\<lparr>sent := sent st @ [UpdateMissingReviewRatings],
                purchases := Some (map (fill_rating a) tbl)\<rparr>)"
  by (auto simp: update_missing_review_ratings_def execute_sql_eq)


lemma fill_rating_Null: "fill_rating Null r = r"
  by (auto simp: fill_rating_def)

lemma ratings_all_null:
  "\<forall>r \<in> set tbl. r ''review_rating'' = Null \<Longrightarrow> ratings tbl = []"
  by (induction tbl) (auto simp: ratings_def)

text \<open>
  Claim C9. When every \<^verbatim>\<open>review_rating\<close> of purchases is null,
  \<^verbatim>\<open>update_missing_review_ratings\<close> leaves the purchases table as it is: the average
  over no rating is null, and every null rating stays null. Nothing is raised or logged.
\<close>

theorem repair_all_null_unchanged:
  assumes "purchases st = Some tbl"
    and "\<forall>r \<in> set tbl. r ''review_rating'' = Null"
  shows "avg_rating eng tbl = Inr Null \<and>
         update_missing_review_ratings eng st =
           (None, st\<lparr>sent := sent st @ [UpdateMissingReviewRatings]\<rparr>) \<and>
         purchases (snd (update_missing_review_ratings eng st)) = Some tbl"
proof -
  have r: "ratings tbl = []"
    using assms(2) by (rule ratings_all_null)
  then have a: "avg_rating eng tbl = Inr Null"
    by (simp add: avg_rating_def)
  have "map (fill_rating Null) tbl = tbl"
    by (rule map_idI) (simp add: fill_rating_Null)
  with assms(1) r a show ?thesis
    by (simp add: update_missing_eq [where a = Null])
qed

theorem repair_all_null_unchanged_witness:
  "purchases (snd (update_missing_review_ratings example_engine
      \<lparr>staging = None, customers = None, products = None,
       purchases = Some [row_of [''customer_id''] [IntV 7], row_of [''customer_id''] [IntV 8]],
       idx_customer_id = False, logged = [], sent = [], staging_seq = 1\<rparr>))
   = Some [row_of [''customer_id''] [IntV 7], row_of [''customer_id''] [IntV 8]]"
  using repair_all_null_unchanged [of
      "\<lparr>staging = None, customers = None, products = None,
       purchases = Some [row_of [''customer_id''] [IntV 7], row_of [''customer_id''] [IntV 8]],
       idx_customer_id = False, logged = [], sent = [], staging_seq = 1\<rparr>"
      "[row_of [''customer_id''] [IntV 7], row_of [''customer_id''] [IntV 8]]"
      example_engine]
  by (simp add: row_of_def)







subsection \<open>The orchestration\<close>

lemma pg_execute_keeps_history:
  "pg_execute eng s st = Inr st' \<Longrightarrow> sent st' = sent st \<and> logged st' = logged st"
  by (cases s) (auto split: option.splits if_splits sum.splits)

lemma execute_sql_sent: "sent (snd (execute_sql eng s st)) = sent st @ [s]"
  by (auto simp: execute_sql_eq split: sum.splits dest: pg_execute_keeps_history)

lemma then_call_execute_sql: "then_call (execute_sql eng s) g st = g (snd (execute_sql eng s st))"
  by (simp add: then_call_def execute_sql_eq)

lemma normalize_eq:
  "normalize eng st =
     (if customers st = None
      then execute_sql eng CreateProducts (snd (execute_sql eng CreatePurchases
             (snd (execute_sql eng CreateCustomers (snd (execute_sql eng CreateIndex st))))))
      else (None, st))"
  by (simp add: normalize_def then_call_execute_sql create_index_def
      create_customers_table_def create_purchases_table_def create_products_table_def)

lemma normalize_returns: "fst (normalize eng st) = None"
  by (simp add: normalize_eq execute_sql_eq)

lemma transform_and_load_eq:
  "transform_and_load eng st =
     execute_sql eng UpdateMissingReviewRatings
       (snd (normalize eng (snd (execute_sql eng ConvertYesNo st))))"
proof -
  have "then_call (normalize eng) g s = g (snd (normalize eng s))" for g s
    using normalize_returns [of eng s] by (cases "normalize eng s") (simp add: then_call_def)
  then show ?thesis
    by (simp add: transform_and_load_def then_call_execute_sql convert_yes_no_to_boolean_def
        update_missing_review_ratings_def)
qed

lemma execute_sql_customers:
  "s \<noteq> CreateCustomers \<Longrightarrow> customers (snd (execute_sql eng s st)) = customers st"
  by (cases s) (auto simp: execute_sql_eq split: option.splits sum.splits)

lemma normalize_sent:
  "sent (snd (normalize eng st)) =
     sent st @ (if customers st = None
                then [CreateIndex, CreateCustomers, CreatePurchases, CreateProducts] else [])"
  by (simp add: normalize_eq execute_sql_sent)

text \<open>
  Claim C8. A statement that fails inside \<^verbatim>\<open>execute_sql\<close> is caught and written to
  the log, \<^verbatim>\<open>execute_sql\<close> returns without raising, and \<^verbatim>\<open>transform_and_load\<close> sends
  every step that follows, whatever failed before: the conversion, the four statements
  of the normalization when customers does not exist, and the repair.
\<close>

theorem step_failure_swallowed:
  "fst (execute_sql eng s st) = None \<and>
   (pg_execute eng s (st\<lparr>sent := sent st @ [s]\<rparr>) = Inl e \<longrightarrow>
      snd (execute_sql eng s st) = st\<lparr>sent := sent st @ [s], logged := logged st @ [e]\<rparr>) \<and>
   fst (transform_and_load eng st) = None \<and>
   sent (snd (transform_and_load eng st)) =
     sent st @ [ConvertYesNo]
       @ (if customers st = None
          then [CreateIndex, CreateCustomers, CreatePurchases, CreateProducts] else [])
       @ [UpdateMissingReviewRatings]"
proof -
  have "customers (snd (execute_sql eng ConvertYesNo st)) = customers st"
    by (simp add: execute_sql_customers)
  then have "sent (snd (transform_and_load eng st)) =
     sent st @ [ConvertYesNo]
       @ (if customers st = None
          then [CreateIndex, CreateCustomers, CreatePurchases, CreateProducts] else [])
       @ [UpdateMissingReviewRatings]"
    by (simp add: transform_and_load_eq execute_sql_sent normalize_sent)
  moreover have "fst (transform_and_load eng st) = None"
    by (simp add: transform_and_load_eq execute_sql_eq)
  moreover have "fst (execute_sql eng s st) = None"
    by (simp add: execute_sql_eq)
  moreover have "pg_execute eng s (st\<lparr>sent := sent st @ [s]\<rparr>) = Inl e \<longrightarrow>
      snd (execute_sql eng s st) = st\<lparr>sent := sent st @ [s], logged := logged st @ [e]\<rparr>"
    by (simp add: execute_sql_eq)
  ultimately show ?thesis
    by blast
qed

theorem step_failure_swallowed_witness:
  "snd (execute_sql example_engine ConvertYesNo
      \<lparr>staging = None, customers = None, products = None, purchases = None,
       idx_customer_id = False, logged = [], sent = [], staging_seq = 1\<rparr>)
   = \<lparr>staging = None, customers = None, products = None, purchases = None,
      idx_customer_id = False, logged = [ProgrammingError], sent = [ConvertYesNo], staging_seq = 1\<rparr> \<and>
   sent (snd (transform_and_load example_engine
      \<lparr>staging = None, customers = None, products = None, purchases = None,
       idx_customer_id = False, logged = [], sent = [], staging_seq = 1\<rparr>))
   = [ConvertYesNo, CreateIndex, CreateCustomers, CreatePurchases, CreateProducts,
      UpdateMissingReviewRatings]"
  using step_failure_swallowed [of example_engine ConvertYesNo
      "\<lparr>staging = None, customers = None, products = None, purchases = None,
       idx_customer_id = False, logged = [], sent = [], staging_seq = 1\<rparr>" ProgrammingError]
  by simp

lemma execute_sql_staging:
  "s = CreateIndex \<or> s = CreateCustomers \<or> s = CreateProducts \<or> s = CreatePurchases
     \<or> s = UpdateMissingReviewRatings \<Longrightarrow>
   staging (snd (execute_sql eng s st)) = staging st"
  by (auto simp: execute_sql_eq split: option.splits sum.splits if_splits)

lemma execute_sql_products:
  "s \<noteq> CreateProducts \<Longrightarrow> products (snd (execute_sql eng s st)) = products st"
  by (cases s) (auto simp: execute_sql_eq split: option.splits sum.splits if_splits)

lemma execute_sql_purchases:
  "s \<noteq> CreatePurchases \<Longrightarrow> s \<noteq> UpdateMissingReviewRatings \<Longrightarrow>
   purchases (snd (execute_sql eng s st)) = purchases st"
  by (cases s) (auto simp: execute_sql_eq split: option.splits sum.splits if_splits)

lemma execute_sql_index:
  "s \<noteq> CreateIndex \<Longrightarrow> idx_customer_id (snd (execute_sql eng s st)) = idx_customer_id st"
  by (cases s) (auto simp: execute_sql_eq split: option.splits sum.splits if_splits)

lemma create_customers_effect:
  "customers (snd (execute_sql eng CreateCustomers st)) =
     (case staging st of
        None \<Rightarrow> customers st
      | Some tbl \<Rightarrow>
          if customers st = None
          then Some (select_distinct [''customer_id'', ''age'', ''gender'', ''subscription_status'']
                       tbl)
          else customers st)"
  by (auto simp: execute_sql_eq split: option.splits sum.splits if_splits)

lemma create_products_effect:
  "products (snd (execute_sql eng CreateProducts st)) =
     (case staging st of
        None \<Rightarrow> products st
      | Some tbl \<Rightarrow>
          if products st = None
          then Some (select_distinct [''item_purchased'', ''category'', ''size'', ''color'',
                       ''season''] tbl)
          else products st)"
  by (auto simp: execute_sql_eq split: option.splits sum.splits if_splits)

lemma create_purchases_effect:
  "purchases (snd (execute_sql eng CreatePurchases st)) =
     (case staging st of
        None \<Rightarrow> purchases st
      | Some tbl \<Rightarrow>
          if purchases st = None
          then Some (select [''customer_id'', ''item_purchased'', ''purchase_amount'',
                       ''location'', ''review_rating''] tbl)
          else purchases st)"
  by (auto simp: execute_sql_eq split: option.splits sum.splits if_splits)

lemma repair_keeps_existence:
  "(purchases (snd (execute_sql eng UpdateMissingReviewRatings st)) = None) = (purchases st = None)"
  by (auto simp: execute_sql_eq split: option.splits sum.splits if_splits)

lemma normalize_when_normalized: "customers st \<noteq> None \<Longrightarrow> normalize eng st = (None, st)"
  by (auto simp: normalize_eq)

lemma normalize_creates_customers:
  "staging st \<noteq> None \<Longrightarrow> customers (snd (normalize eng st)) \<noteq> None"
  by (auto simp: normalize_eq execute_sql_customers create_customers_effect execute_sql_staging)

lemma normalize_without_staging:
  "staging st = None \<Longrightarrow>
   staging (snd (normalize eng st)) = None \<and> customers (snd (normalize eng st)) = customers st \<and>
   products (snd (normalize eng st)) = products st \<and> purchases (snd (normalize eng st)) = purchases st"
  by (simp add: normalize_eq execute_sql_customers execute_sql_products execute_sql_purchases
      create_customers_effect create_products_effect create_purchases_effect
      execute_sql_staging)

lemma normalize_fresh:
  "staging st = Some tbl \<Longrightarrow> customers st = None \<Longrightarrow> products st = None \<Longrightarrow>
   purchases st = None \<Longrightarrow>
   customers (snd (normalize eng st)) =
     Some (select_distinct [''customer_id'', ''age'', ''gender'', ''subscription_status''] tbl) \<and>
   purchases (snd (normalize eng st)) =
     Some (select [''customer_id'', ''item_purchased'', ''purchase_amount'', ''location'',
                   ''review_rating''] tbl) \<and>
   products (snd (normalize eng st)) =
     Some (select_distinct [''item_purchased'', ''category'', ''size'', ''color'', ''season''] tbl)"
  by (simp add: normalize_eq execute_sql_customers execute_sql_products execute_sql_purchases
      create_customers_effect create_products_effect create_purchases_effect
      execute_sql_staging)

text \<open>
  Claim C7, amended. In every database state the second of two calls of the guarded
  block of \<^verbatim>\<open>transform_and_load\<close> creates no table: customers, products and purchases
  are after it what they were before it. In a state that has the staging table and none
  of the three, the first call creates all three, as the projections of staging, and the
  second call does nothing at all, so each table is created exactly once.
\<close>

theorem normalization_guard:
  "fst (normalize eng st) = None \<and>
   customers (snd (normalize eng (snd (normalize eng st)))) = customers (snd (normalize eng st)) \<and>
   products (snd (normalize eng (snd (normalize eng st)))) = products (snd (normalize eng st)) \<and>
   purchases (snd (normalize eng (snd (normalize eng st)))) = purchases (snd (normalize eng st)) \<and>
   (staging st = Some tbl \<and> customers st = None \<and> products st = None \<and> purchases st = None
      \<longrightarrow>
      customers (snd (normalize eng st)) =
        Some (select_distinct [''customer_id'', ''age'', ''gender'', ''subscription_status''] tbl) \<and>
      purchases (snd (normalize eng st)) =
        Some (select [''customer_id'', ''item_purchased'', ''purchase_amount'', ''location'',
                      ''review_rating''] tbl) \<and>
      products (snd (normalize eng st)) =
        Some (select_distinct [''item_purchased'', ''category'', ''size'', ''color'', ''season'']
                tbl) \<and>
      normalize eng (snd (normalize eng st)) = (None, snd (normalize eng st)))"
proof -
  have second: "customers (snd (normalize eng (snd (normalize eng st)))) = customers (snd (normalize eng st)) \<and>
    products (snd (normalize eng (snd (normalize eng st)))) = products (snd (normalize eng st)) \<and>
    purchases (snd (normalize eng (snd (normalize eng st)))) = purchases (snd (normalize eng st))"
  proof (cases "staging st")
    case None
    then have "staging (snd (normalize eng st)) = None"
      by (simp add: normalize_without_staging)
    then show ?thesis
      by (simp add: normalize_without_staging)
  next
    case (Some t)
    then have "customers (snd (normalize eng st)) \<noteq> None"
      by (simp add: normalize_creates_customers)
    then show ?thesis
      by (simp add: normalize_when_normalized)
  qed
  have fresh: "normalize eng (snd (normalize eng st)) = (None, snd (normalize eng st))"
    if "staging st = Some tbl"
  proof -
    from that have "customers (snd (normalize eng st)) \<noteq> None"
      by (simp add: normalize_creates_customers)
    then show ?thesis
      by (rule normalize_when_normalized)
  qed
  show ?thesis
    using second fresh normalize_fresh [of st tbl eng] normalize_returns [of eng st] by blast
qed

theorem normalization_guard_witness:
  "customers (snd (normalize example_engine
      \<lparr>staging = Some [], customers = None, products = None, purchases = None,
       idx_customer_id = False, logged = [], sent = [], staging_seq = 1\<rparr>)) = Some [] \<and>
   normalize example_engine (snd (normalize example_engine
      \<lparr>staging = Some [], customers = None, products = None, purchases = None,
       idx_customer_id = False, logged = [], sent = [], staging_seq = 1\<rparr>))
   = (None, snd (normalize example_engine
      \<lparr>staging = Some [], customers = None, products = None, purchases = None,
       idx_customer_id = False, logged = [], sent = [], staging_seq = 1\<rparr>))"
  using normalization_guard [of example_engine
      "\<lparr>staging = Some [], customers = None, products = None, purchases = None,
       idx_customer_id = False, logged = [], sent = [], staging_seq = 1\<rparr>" "[]"]
  by (simp add: select_distinct_def)

text \<open>
  The claim as it is written asks for exactly one creation of each table in every
  state. In a state that has customers and lacks products and purchases, two calls create
  neither of them.
\<close>

theorem normalization_guard_counterexample:
  "products (snd (normalize example_engine (snd (normalize example_engine
      \<lparr>staging = Some [], customers = Some [], products = None, purchases = None,
       idx_customer_id = False, logged = [], sent = [], staging_seq = 1\<rparr>)))) = None \<and>
   purchases (snd (normalize example_engine (snd (normalize example_engine
      \<lparr>staging = Some [], customers = Some [], products = None, purchases = None,
       idx_customer_id = False, logged = [], sent = [], staging_seq = 1\<rparr>)))) = None"
  by (simp add: normalize_eq)

lemma transform_and_load_when_normalized:
  assumes "customers st \<noteq> None"
  shows "customers (snd (transform_and_load eng st)) = customers st \<and>
         products (snd (transform_and_load eng st)) = products st \<and>
         (purchases (snd (transform_and_load eng st)) = None \<longleftrightarrow> purchases st = None) \<and>
         idx_customer_id (snd (transform_and_load eng st)) = idx_customer_id st \<and>
         sent (snd (transform_and_load eng st))
           = sent st @ [ConvertYesNo, UpdateMissingReviewRatings]"
proof -
  have c: "customers (snd (execute_sql eng ConvertYesNo st)) \<noteq> None"
    using assms by (simp add: execute_sql_customers)
  have t: "transform_and_load eng st =
      execute_sql eng UpdateMissingReviewRatings (snd (execute_sql eng ConvertYesNo st))"
    by (simp add: transform_and_load_eq normalize_when_normalized [OF c])
  show ?thesis
    unfolding t
    by (simp add: execute_sql_customers execute_sql_products execute_sql_purchases
        execute_sql_index repair_keeps_existence execute_sql_sent)
qed

lemma concat_replicate_snoc: "concat (replicate n xs) @ xs = xs @ concat (replicate n xs)"
  by (induction n) simp_all

text \<open>
  Claim C10. The block that creates the derived tables runs only when customers does
  not exist. In every state that has customers, however many times
  \<^verbatim>\<open>transform_and_load\<close> runs, a missing products or purchases table stays missing and
  the index on the staging \<^verbatim>\<open>customer_id\<close> is not created: the only statements sent
  are the conversion and the repair.
\<close>

theorem guard_on_customers_only:
  assumes "customers st \<noteq> None"
  shows "customers (((\<lambda>s. snd (transform_and_load eng s)) ^^ n) st) = customers st \<and>
         products (((\<lambda>s. snd (transform_and_load eng s)) ^^ n) st) = products st \<and>
         (purchases (((\<lambda>s. snd (transform_and_load eng s)) ^^ n) st) = None
            \<longleftrightarrow> purchases st = None) \<and>
         idx_customer_id (((\<lambda>s. snd (transform_and_load eng s)) ^^ n) st) = idx_customer_id st \<and>
         sent (((\<lambda>s. snd (transform_and_load eng s)) ^^ n) st)
           = sent st @ concat (replicate n [ConvertYesNo, UpdateMissingReviewRatings])"
proof (induction n)
  case 0
  show ?case by simp
next
  case (Suc n)
  let ?s = "((\<lambda>s. snd (transform_and_load eng s)) ^^ n) st"
  from Suc.IH assms have "customers ?s \<noteq> None"
    by simp
  from transform_and_load_when_normalized [OF this] Suc.IH show ?case
    by (simp add: concat_replicate_snoc)
qed

theorem guard_on_customers_only_witness:
  "products (((\<lambda>s. snd (transform_and_load example_engine s)) ^^ 2)
      \<lparr>staging = Some [], customers = Some [], products = None, purchases = None,
       idx_customer_id = False, logged = [], sent = [], staging_seq = 1\<rparr>) = None \<and>
   sent (((\<lambda>s. snd (transform_and_load example_engine s)) ^^ 2)
      \<lparr>staging = Some [], customers = Some [], products = None, purchases = None,
       idx_customer_id = False, logged = [], sent = [], staging_seq = 1\<rparr>)
     = [ConvertYesNo, UpdateMissingReviewRatings, ConvertYesNo, UpdateMissingReviewRatings]"
  using guard_on_customers_only [of
      "\<lparr>staging = Some [], customers = Some [], products = None, purchases = None,
       idx_customer_id = False, logged = [], sent = [], staging_seq = 1\<rparr>" 2 example_engine]
  by (simp add: numeral_2_eq_2)

subsection \<open>The type normalizer applied again\<close>

text \<open>
  Claim C2. A second \<^verbatim>\<open>convert_yes_no_to_boolean\<close> should change nothing: a status
  that was \<^verbatim>\<open>Yes\<close>, hence true after the first run, should still be true after the
  second. It is not: the first run leaves the text \<^verbatim>\<open>true\<close> in the column, the second
  compares that text with \<^verbatim>\<open>Yes\<close> and stores false. Neither run raises or logs.
\<close>

theorem convert_twice_yes_becomes_false:
  "(the (staging (snd (convert_yes_no_to_boolean example_engine
      \<lparr>staging = Some [row_of [''customer_id'', ''subscription_status''] [IntV 7, StrV ''Yes'']],
       customers = None, products = None, purchases = None, idx_customer_id = False,
       logged = [], sent = [], staging_seq = 1\<rparr>))) ! 0) ''subscription_status'' = StrV ''true'' \<and>
   (the (staging (snd (convert_yes_no_to_boolean example_engine (snd (convert_yes_no_to_boolean example_engine
      \<lparr>staging = Some [row_of [''customer_id'', ''subscription_status''] [IntV 7, StrV ''Yes'']],
       customers = None, products = None, purchases = None, idx_customer_id = False,
       logged = [], sent = [], staging_seq = 1\<rparr>))))) ! 0) ''subscription_status'' = StrV ''false'' \<and>
   logged (snd (convert_yes_no_to_boolean example_engine (snd (convert_yes_no_to_boolean example_engine
      \<lparr>staging = Some [row_of [''customer_id'', ''subscription_status''] [IntV 7, StrV ''Yes'']],
       customers = None, products = None, purchases = None, idx_customer_id = False,
       logged = [], sent = [], staging_seq = 1\<rparr>)))) = []"
proof -
  have y: "''subscription_status'' \<in> set yes_no_columns"
    by (simp add: yes_no_columns_def)
  have l: "logged (snd (convert_yes_no_to_boolean example_engine st)) = logged st" if "staging st \<noteq> None" for st
    using that yes_no_types
    by (auto simp: convert_yes_no_to_boolean_def execute_sql_eq split: option.splits)
  show ?thesis
    by (simp add: convert_staging convert_row_value [OF y] row_of_def l)
qed

subsection \<open>Upserts on a table\<close>


lemma key_not_overwritten: "''customer_id'' \<notin> set non_pk_columns"
  by code_simp

lemma overwrite_key [simp]: "overwrite old new ''customer_id'' = old ''customer_id''"
  by (simp add: overwrite_def excluded_update_def key_not_overwritten)









lemma overwrites_key [simp]: "overwrites news x ''customer_id'' = x ''customer_id''"
  unfolding overwrites_def by (induction news arbitrary: x) simp_all










subsection \<open>The staging loader\<close>

lemma conn_execute_history:
  "logged (snd (conn_execute eng s st)) = logged st \<and>
   sent (snd (conn_execute eng s st)) = sent st @ [s]"
  by (auto simp: conn_execute_def split: sum.splits dest: pg_execute_keeps_history)

lemma inserted_row_null_key:
  "(\<exists>k \<in> set primary_keys. inserted_row seq vals k = Null)
     = (\<exists>k \<in> set primary_keys. vals k = Some Null)"
  by (simp add: inserted_row_def primary_keys_def split: option.splits)

lemma conn_execute_upsert:
  "staging st = Some tbl \<Longrightarrow> \<not> (\<exists>k \<in> set primary_keys. vals k = Some Null) \<Longrightarrow>
   fst (conn_execute eng (Upsert vals) st) = None \<and>
   staging (snd (conn_execute eng (Upsert vals) st))
     = Some (on_conflict_do_update tbl (inserted_row (staging_seq st) vals)) \<and>
   staging_seq (snd (conn_execute eng (Upsert vals) st))
     = (if \<exists>k \<in> set primary_keys. vals k = None then staging_seq st + 1 else staging_seq st)"
  by (simp add: conn_execute_def inserted_row_null_key)

lemma conn_execute_upsert_null:
  "\<exists>k \<in> set primary_keys. vals k = Some Null \<Longrightarrow>
   fst (conn_execute eng (Upsert vals) st) \<noteq> None \<and>
   staging (snd (conn_execute eng (Upsert vals) st)) = staging st \<and>
   staging_seq (snd (conn_execute eng (Upsert vals) st)) = staging_seq st"
  by (simp add: conn_execute_def inserted_row_null_key split: option.splits)

lemma conn_execute_upsert_no_table:
  "staging st = None \<Longrightarrow>
   fst (conn_execute eng (Upsert vals) st) \<noteq> None \<and>
   staging (snd (conn_execute eng (Upsert vals) st)) = None"
  by (simp add: conn_execute_def)

lemma first_error_None:
  "first_error xs = None \<Longrightarrow> x \<in> set xs \<Longrightarrow> \<exists>v. x = Inr v"
  by (induction xs rule: first_error.induct) auto

lemma schema_names_distinct: "distinct (map fst table_schema)"
  by code_simp

text \<open>The insert holds, for each column of the schema, what the record binds to it.\<close>

lemma insert_values_binds:
  assumes "insert_values eng r = Inr vals" and "col \<in> set table_schema"
  shows "bind_column eng r col = Inr (vals (fst col))"
proof -
  from assms(1) have f: "first_error (map (bind_column eng r) table_schema) = None"
    and n: "vals = (\<lambda>c. case map_of table_schema c of
                         None \<Rightarrow> None
                       | Some col \<Rightarrow>
                           (case bind_column eng r (c, col) of
                              Inl e \<Rightarrow> None
                            | Inr v \<Rightarrow> v))"
    by (auto simp: insert_values_def split: if_splits option.splits)
  from assms(2) have "bind_column eng r col \<in> set (map (bind_column eng r) table_schema)"
    by simp
  with f obtain v where v: "bind_column eng r col = Inr v"
    by (blast dest: first_error_None)
  have "map_of table_schema (fst col) = Some (snd col)"
    by (rule map_of_is_SomeI [OF schema_names_distinct]) (simp add: assms(2))
  with v show ?thesis
    unfolding n by simp
qed

lemma key_in_schema: "(''customer_id'', Integer, True) \<in> set table_schema"
  by code_simp

text \<open>The insert leaves the key to the database exactly when the record has no key.\<close>

lemma key_left_to_default:
  assumes "insert_values eng r = Inr vals"
  shows "(\<exists>k \<in> set primary_keys. vals k = None) = (\<not> supplies_key r)"
proof -
  from insert_values_binds [OF assms key_in_schema]
  have "bind_column eng r (''customer_id'', Integer, True) = Inr (vals ''customer_id'')"
    by simp
  then have "(vals ''customer_id'' = None) = (record_get r ''customer_id'' = None)"
    by (cases "record_get r ''customer_id''")
       (auto simp: bind_column_def split: sum.splits dest: sym)
  also have "\<dots> = (''customer_id'' \<notin> set (map fst r))"
    by (simp add: record_get_def map_of_eq_None_iff)
  finally show ?thesis
    by (simp add: supplies_key_def primary_keys_def)
qed

lemma accepted_row:
  "\<not> rejected eng r \<Longrightarrow>
   insert_values eng r = Inr (projr (insert_values eng r)) \<and>
   \<not> (\<exists>k \<in> set primary_keys. projr (insert_values eng r) k = Some Null)"
  by (cases "insert_values eng r") (simp_all add: rejected_def)

text \<open>The loop writes the rows before the first rejected record, and no other.\<close>

lemma for_records_staging:
  "staging (snd (for_records eng rs st)) =
     map_option (\<lambda>tbl. foldl on_conflict_do_update tbl (written_rows eng (staging_seq st) rs))
       (staging st)"
proof (induction rs arbitrary: st)
  case Nil
  show ?case
    by (cases "staging st") simp_all
next
  case (Cons r rs)
  show ?case
  proof (cases "rejected eng r")
    case True
    show ?thesis
    proof (cases "insert_values eng r")
      case (Inl e)
      with True show ?thesis
        by (cases "staging st") simp_all
    next
      case (Inr vals)
      with True have "\<exists>k \<in> set primary_keys. vals k = Some Null"
        by (simp add: rejected_def)
      from conn_execute_upsert_null [OF this, of eng st] Inr True show ?thesis
        by (cases "conn_execute eng (Upsert vals) st"; cases "staging st") auto
    qed
  next
    case False
    then obtain vals where i: "insert_values eng r = Inr vals"
      and k: "\<not> (\<exists>k \<in> set primary_keys. vals k = Some Null)"
      by (cases "insert_values eng r") (auto simp: rejected_def)
    from False i have w: "written_rows eng (staging_seq st) (r # rs) =
        inserted_row (staging_seq st) vals
          # written_rows eng (if supplies_key r then staging_seq st else staging_seq st + 1) rs"
      by simp
    show ?thesis
    proof (cases "staging st")
      case None
      from conn_execute_upsert_no_table [OF None, of eng vals] obtain e st' where
        "conn_execute eng (Upsert vals) st = (Some e, st')" and "staging st' = None"
        by (cases "conn_execute eng (Upsert vals) st") auto
      with i None show ?thesis
        by simp
    next
      case (Some tbl)
      from conn_execute_upsert [OF Some k, of eng] obtain st' where
        c: "conn_execute eng (Upsert vals) st = (None, st')"
        and s: "staging st' = Some (on_conflict_do_update tbl (inserted_row (staging_seq st) vals))"
        and q: "staging_seq st' =
                  (if \<exists>k \<in> set primary_keys. vals k = None then staging_seq st + 1
                   else staging_seq st)"
        by (cases "conn_execute eng (Upsert vals) st") auto
      from q have q': "staging_seq st' =
                  (if supplies_key r then staging_seq st else staging_seq st + 1)"
        by (simp add: key_left_to_default [OF i])
      have "for_records eng (r # rs) st = for_records eng rs st'"
        using i c by simp
      with Cons.IH [of st'] s Some w q' show ?thesis
        by simp
    qed
  qed
qed

lemma for_records_logged: "logged (snd (for_records eng rs st)) = logged st"
proof (induction rs arbitrary: st)
  case Nil
  show ?case by simp
next
  case (Cons r rs)
  show ?case
  proof (cases "insert_values eng r")
    case (Inl e)
    then show ?thesis by simp
  next
    case (Inr vals)
    obtain o' st' where c: "conn_execute eng (Upsert vals) st = (o', st')"
      by (cases "conn_execute eng (Upsert vals) st")
    with conn_execute_history [of eng "Upsert vals" st] have "logged st' = logged st"
      by simp
    with Cons.IH [of st'] Inr c show ?thesis
      by (cases o') simp_all
  qed
qed

text \<open>With the staging table in place, the loop raises exactly when a record is rejected.\<close>

lemma for_records_raises:
  "staging st \<noteq> None \<Longrightarrow>
   (fst (for_records eng rs st) \<noteq> None) = (\<exists>r \<in> set rs. rejected eng r)"
proof (induction rs arbitrary: st)
  case Nil
  show ?case by simp
next
  case (Cons r rs)
  from Cons.prems obtain tbl where t: "staging st = Some tbl"
    by auto
  show ?case
  proof (cases "rejected eng r")
    case True
    show ?thesis
    proof (cases "insert_values eng r")
      case (Inl e)
      with True show ?thesis by simp
    next
      case (Inr vals)
      with True have "\<exists>k \<in> set primary_keys. vals k = Some Null"
        by (simp add: rejected_def)
      from conn_execute_upsert_null [OF this, of eng st] Inr True show ?thesis
        by (cases "conn_execute eng (Upsert vals) st") auto
    qed
  next
    case False
    then obtain vals where i: "insert_values eng r = Inr vals"
      and k: "\<not> (\<exists>k \<in> set primary_keys. vals k = Some Null)"
      by (cases "insert_values eng r") (auto simp: rejected_def)
    from conn_execute_upsert [OF t k, of eng] obtain st' where
      c: "conn_execute eng (Upsert vals) st = (None, st')"
      and s: "staging st' \<noteq> None"
      by (cases "conn_execute eng (Upsert vals) st") auto
    have "for_records eng (r # rs) st = for_records eng rs st'"
      using i c by simp
    with Cons.IH [OF s] False show ?thesis
      by simp
  qed
qed


lemma load_to_staging_returns: "fst (load_to_staging eng df st) = None"
  by (simp add: load_to_staging_def try_except_def split: prod.splits option.splits)

lemma load_to_staging_staging:
  "staging (snd (load_to_staging eng df st)) =
     map_option
       (\<lambda>tbl. foldl on_conflict_do_update tbl
          (written_rows eng (staging_seq st) (to_dict (rename df))))
       (staging st)"
proof -
  have "staging (snd (load_to_staging eng df st))
          = staging (snd (for_records eng (to_dict (rename df)) st))"
    by (simp add: load_to_staging_def try_except_def split: prod.splits option.splits)
  then show ?thesis
    by (simp add: for_records_staging)
qed


lemma load_to_staging_logged:
  "staging st \<noteq> None \<Longrightarrow>
   logged (snd (load_to_staging eng df st)) =
     (if \<exists>r \<in> set (to_dict (rename df)). rejected eng r
      then logged st @ [the (fst (for_records eng (to_dict (rename df)) st))]
      else logged st)"
  using for_records_raises [of st eng "to_dict (rename df)"]
    for_records_logged [of eng "to_dict (rename df)" st]
  by (cases "for_records eng (to_dict (rename df)) st")
     (auto simp: load_to_staging_def try_except_def split: option.splits)

text \<open>The written rows of a batch: one for each record before the first rejected one.\<close>

lemma written_rows_until_rejected:
  "\<forall>r \<in> set pre. \<not> rejected eng r \<Longrightarrow> rejected eng bad \<Longrightarrow>
   written_rows eng seq (pre @ bad # post) = written_rows eng seq pre"
  by (induction pre arbitrary: seq) simp_all

lemma written_rows_length:
  "\<forall>r \<in> set rs. \<not> rejected eng r \<Longrightarrow> length (written_rows eng seq rs) = length rs"
  by (induction rs arbitrary: seq) simp_all

text \<open>The row written for a record that has its key holds the values of the record.\<close>

lemma written_rows_nth:
  "\<forall>r \<in> set rs. \<not> rejected eng r \<Longrightarrow> i < length rs \<Longrightarrow> supplies_key (rs ! i) \<Longrightarrow>
   insert_values eng (rs ! i) = Inr vals \<Longrightarrow>
   written_rows eng seq rs ! i = (\<lambda>c. case vals c of Some v \<Rightarrow> v | None \<Rightarrow> Null)"
proof (induction rs arbitrary: seq i)
  case Nil
  then show ?case by simp
next
  case (Cons r rs)
  show ?case
  proof (cases i)
    case 0
    with Cons.prems have i: "insert_values eng r = Inr vals" and s: "supplies_key r"
      by simp_all
    from key_left_to_default [OF i] s have "\<forall>k \<in> set primary_keys. vals k \<noteq> None"
      by simp
    then have "inserted_row seq vals = (\<lambda>c. case vals c of Some v \<Rightarrow> v | None \<Rightarrow> Null)"
      by (auto simp: inserted_row_def fun_eq_iff split: option.splits)
    with 0 Cons.prems(1) i show ?thesis
      by simp
  next
    case (Suc j)
    with Cons.prems Cons.IH [of j] show ?thesis
      by simp
  qed
qed






text \<open>
  Claim C1, amended. The handler of \<^verbatim>\<open>load_to_staging\<close> encloses the whole loop. When
  a record is rejected (its insert cannot be built or bound, or it gives null for the
  primary key), the records before it have been written, one row each, the rejected
  record and every record after it in the batch are not written, the error is written
  to the log, and the loader returns without raising. The row written for a record that
  has its key holds the values the record binds, and null in the columns it lacks.
\<close>

theorem load_stops_at_first_rejected:
  assumes "staging st = Some tbl"
    and "to_dict (rename df) = pre @ bad # post"
    and "\<forall>r \<in> set pre. \<not> rejected eng r"
    and "rejected eng bad"
  shows "fst (load_to_staging eng df st) = None \<and>
         staging (snd (load_to_staging eng df st)) =
           Some (foldl on_conflict_do_update tbl (written_rows eng (staging_seq st) pre)) \<and>
         length (written_rows eng (staging_seq st) pre) = length pre \<and>
         (\<forall>i < length pre. supplies_key (pre ! i) \<longrightarrow>
            written_rows eng (staging_seq st) pre ! i =
              (\<lambda>c. case projr (insert_values eng (pre ! i)) c of
                     Some v \<Rightarrow> v
                   | None \<Rightarrow> Null)) \<and>
         (\<exists>e. logged (snd (load_to_staging eng df st)) = logged st @ [e])"
proof -
  have "staging (snd (load_to_staging eng df st)) =
           Some (foldl on_conflict_do_update tbl (written_rows eng (staging_seq st) pre))"
    using assms by (simp add: load_to_staging_staging written_rows_until_rejected)
  moreover have "\<exists>e. logged (snd (load_to_staging eng df st)) = logged st @ [e]"
    using assms(1,2,4) by (simp add: load_to_staging_logged)
  moreover have "length (written_rows eng (staging_seq st) pre) = length pre"
    using assms(3) by (rule written_rows_length)
  moreover have "written_rows eng (staging_seq st) pre ! i =
              (\<lambda>c. case projr (insert_values eng (pre ! i)) c of
                     Some v \<Rightarrow> v
                   | None \<Rightarrow> Null)"
    if "i < length pre" and "supplies_key (pre ! i)" for i
  proof -
    from that(1) assms(3) have "\<not> rejected eng (pre ! i)"
      by simp
    then have "insert_values eng (pre ! i) = Inr (projr (insert_values eng (pre ! i)))"
      using accepted_row by blast
    with assms(3) that show ?thesis
      by (rule written_rows_nth)
  qed
  ultimately show ?thesis
    by (simp add: load_to_staging_returns)
qed

lemma typed_key_accepted:
  "\<not> rejected example_engine [(''customer_id'', PyInt i)] \<and>
   supplies_key [(''customer_id'', PyInt i)] \<and>
   projr (insert_values example_engine [(''customer_id'', PyInt i)]) ''customer_id''
     = Some (IntV i)"
  by (simp add: rejected_def insert_values_def column_names_def table_schema_def
      bind_column_def record_get_def primary_keys_def example_engine_def supplies_key_def)

lemma typed_null_key_rejected: "rejected example_engine [(''customer_id'', PyNone)]"
  by (simp add: rejected_def insert_values_def column_names_def table_schema_def
      bind_column_def record_get_def primary_keys_def example_engine_def)

theorem load_stops_at_first_rejected_witness:
  "length (the (staging (snd (load_to_staging example_engine
      \<lparr>columns = [''Customer ID''], cells = [[PyInt 1], [PyNone], [PyInt 2]]\<rparr>
      \<lparr>staging = Some [], customers = None, products = None, purchases = None,
       idx_customer_id = False, logged = [], sent = [], staging_seq = 1\<rparr>)))) = 1"
proof -
  let ?df = "\<lparr>columns = [''Customer ID''], cells = [[PyInt 1], [PyNone], [PyInt 2]]\<rparr>"
  let ?st = "\<lparr>staging = Some [], customers = None, products = None, purchases = None,
             idx_customer_id = False, logged = [], sent = [], staging_seq = 1\<rparr>"
  have h1: "staging ?st = Some []"
    by simp
  have h2: "to_dict (rename ?df) =
      [[(''customer_id'', PyInt 1)]] @ [(''customer_id'', PyNone)] # [[(''customer_id'', PyInt 2)]]"
    by (simp add: to_dict_def rename_def column_mapping_def)
  have h3: "\<forall>r \<in> set [[(''customer_id'', PyInt 1)]]. \<not> rejected example_engine r"
    using typed_key_accepted [of 1] by simp
  from load_stops_at_first_rejected [OF h1 h2 h3 typed_null_key_rejected]
  have "staging (snd (load_to_staging example_engine ?df ?st)) =
          Some (foldl on_conflict_do_update []
                  (written_rows example_engine (staging_seq ?st) [[(''customer_id'', PyInt 1)]]))"
    by blast
  then show ?thesis
    using typed_key_accepted [of 1] by (simp add: on_conflict_do_update_def)
qed

text \<open>
  The claim as it is written fails: after a record with a null key, a valid record of the
  same batch is not loaded, though alone it would be.
\<close>

theorem load_skips_valid_row_counterexample:
  "staging (snd (load_to_staging example_engine
      \<lparr>columns = [''Customer ID''], cells = [[PyNone], [PyInt 2]]\<rparr>
      \<lparr>staging = Some [], customers = None, products = None, purchases = None,
       idx_customer_id = False, logged = [], sent = [], staging_seq = 1\<rparr>)) = Some [] \<and>
   length (the (staging (snd (load_to_staging example_engine
      \<lparr>columns = [''Customer ID''], cells = [[PyInt 2]]\<rparr>
      \<lparr>staging = Some [], customers = None, products = None, purchases = None,
       idx_customer_id = False, logged = [], sent = [], staging_seq = 1\<rparr>)))) = 1"
proof -
  have a: "to_dict (rename \<lparr>columns = [''Customer ID''], cells = [[PyNone], [PyInt 2]]\<rparr>)
             = [(''customer_id'', PyNone)] # [[(''customer_id'', PyInt 2)]]"
    by (simp add: to_dict_def rename_def column_mapping_def)
  have b: "to_dict (rename \<lparr>columns = [''Customer ID''], cells = [[PyInt 2]]\<rparr>)
             = [[(''customer_id'', PyInt 2)]]"
    by (simp add: to_dict_def rename_def column_mapping_def)
  show ?thesis
    unfolding load_to_staging_staging a b
    using typed_key_accepted [of 2] typed_null_key_rejected
    by (simp add: on_conflict_do_update_def)
qed





end
